theory Spec2Isabelle
  imports Main
begin

section \<open>Python values, exceptions and the builtins the script uses\<close>

text \<open>
  The script \<^verbatim>\<open>dev_server.py\<close> subclasses the standard library's
  \<^verbatim>\<open>http.server.SimpleHTTPRequestHandler\<close> and overrides two methods,
  \<^verbatim>\<open>end_headers\<close> and \<^verbatim>\<open>log_message\<close>. Strings are byte lists (the
  handler decodes and encodes with latin-1, one \<^typ>\<open>char\<close> per character), exceptions
  are values of \<open>exn\<close>, and a call that may raise returns \<open>exn + 'a\<close> with \<open>Inl\<close> the
  exception.
\<close>

datatype exn =
    IndexError
  | AttributeError
  | TypeError
  | ValueError
  | OSError string
  | KeyboardInterrupt
  | UnsupportedConversion char

text \<open>
  \<open>UnsupportedConversion\<close> is not a Python exception: it marks a format directive that
  the model of the \<^verbatim>\<open>%\<close> operator below does not interpret.
\<close>

datatype pyval =
    PStr string
  | PInt int
  | PExc string

text \<open>
  The arguments that reach \<^verbatim>\<open>log_message\<close>: strings, integers (the status code of
  \<^verbatim>\<open>send_error\<close>) and exception objects (\<open>PExc m\<close> is an exception whose \<^verbatim>\<open>str()\<close>
  is \<open>m\<close>).
\<close>

definition and_then :: "exn + 'a \<Rightarrow> ('a \<Rightarrow> exn + 'b) \<Rightarrow> exn + 'b" where
  "and_then m f = (case m of Inl e \<Rightarrow> Inl e | Inr x \<Rightarrow> f x)"

definition ESC :: char where
  "ESC = CHR 0x1B"

definition CRLF :: string where
  "CRLF = [CHR 0x0D, CHR 0x0A]"

definition LF :: string where
  "LF = [CHR 0x0A]"

subsection \<open>\<^verbatim>\<open>str()\<close> of an integer\<close>

definition digit_char :: "nat \<Rightarrow> char" where
  "digit_char d = ''0123456789'' ! d"

function str_nat :: "nat \<Rightarrow> string" where
  "str_nat n = (if n < 10 then [digit_char n] else str_nat (n div 10) @ [digit_char (n mod 10)])"
  by pat_completeness auto
termination
  by (relation "measure id") auto

declare str_nat.simps [simp del]

definition str_int :: "int \<Rightarrow> string" where
  "str_int i = (if i < 0 then CHR ''-'' # str_nat (nat (- i)) else str_nat (nat i))"

fun py_str :: "pyval \<Rightarrow> string" where
  "py_str (PStr s) = s"
| "py_str (PInt i) = str_int i"
| "py_str (PExc m) = m"

subsection \<open>Tuple indexing and \<^verbatim>\<open>str.startswith\<close>\<close>

definition tuple_index :: "pyval list \<Rightarrow> nat \<Rightarrow> exn + pyval" where
  \<comment> \<open>\<^verbatim>\<open>args[i]\<close> for \<open>i \<ge> 0\<close>: IndexError beyond the end.\<close>
  "tuple_index args i = (if i < length args then Inr (args ! i) else Inl IndexError)"

definition startswith :: "pyval \<Rightarrow> string \<Rightarrow> exn + bool" where
  \<comment> \<open>Only \<^verbatim>\<open>str\<close> has the method; on an int or an exception object the attribute
      lookup raises AttributeError.\<close>
  "startswith v p =
     (case v of PStr s \<Rightarrow> Inr (take (length p) s = p) | _ \<Rightarrow> Inl AttributeError)"

subsection \<open>The \<^verbatim>\<open>%\<close> operator on a format string and a tuple\<close>

text \<open>
  \<^verbatim>\<open>format % args\<close> with \<^verbatim>\<open>args\<close> a tuple, for the directives the handler's callers
  use without flags, width or precision: \<^verbatim>\<open>%s\<close>, \<^verbatim>\<open>%d\<close> and \<^verbatim>\<open>%%\<close>. The format
  is read left to right and the first failure is the exception raised:
  \<^item> a \<^verbatim>\<open>%\<close> at the very end: ValueError (incomplete format);
  \<^item> a directive with no argument left: TypeError (not enough arguments);
  \<^item> \<^verbatim>\<open>%d\<close> on a value that is not a number: TypeError;
  \<^item> arguments left over at the end: TypeError (not all arguments converted).
  Any other character after \<^verbatim>\<open>%\<close> is outside this model (\<open>UnsupportedConversion\<close>).
\<close>

fun py_format :: "string \<Rightarrow> pyval list \<Rightarrow> exn + string" where
  "py_format [] args = (if args = [] then Inr [] else Inl TypeError)"
| "py_format [c] args =
     (if c = CHR ''%'' then Inl ValueError
      else and_then (py_format [] args) (\<lambda>r. Inr (c # r)))"
| "py_format (c # d # ds) args =
     (if c \<noteq> CHR ''%'' then and_then (py_format (d # ds) args) (\<lambda>r. Inr (c # r))
      else if d = CHR ''%'' then and_then (py_format ds args) (\<lambda>r. Inr (CHR ''%'' # r))
      else if d = CHR ''s'' then
        (case args of
           [] \<Rightarrow> Inl TypeError
         | a # rest \<Rightarrow> and_then (py_format ds rest) (\<lambda>r. Inr (py_str a @ r)))
      else if d = CHR ''d'' then
        (case args of
           [] \<Rightarrow> Inl TypeError
         | PInt i # rest \<Rightarrow> and_then (py_format ds rest) (\<lambda>r. Inr (str_int i @ r))
         | _ # rest \<Rightarrow> Inl TypeError)
      else Inl (UnsupportedConversion d))"

section \<open>The handler's state\<close>

text \<open>
  One record holds what a handler instance reads and writes while it answers a request,
  together with the process's two output streams (each entry of \<open>stdout\<close> is the text of
  one \<^verbatim>\<open>print\<close> call, which the interpreter ends with a newline):
  \<^item> \<open>client_host\<close> is \<^verbatim>\<open>self.client_address[0]\<close>, what \<^verbatim>\<open>address_string()\<close> returns;
  \<^item> \<open>log_time\<close> is what \<^verbatim>\<open>log_date_time_string()\<close> returns (local time, read from
    the clock), \<open>http_date\<close> what \<^verbatim>\<open>date_time_string()\<close> returns;
  \<^item> \<open>headers_buffer\<close> is the attribute \<^verbatim>\<open>_headers_buffer\<close>, \<open>None\<close> while the instance
    has no such attribute;
  \<^item> \<open>wfile\<close> is the bytes written to the connection so far.
\<close>

record handler =
  client_host :: string
  log_time :: string
  http_date :: string
  server_version :: string
  responses :: "int \<rightharpoonup> string \<times> string"
  error_page :: "int \<Rightarrow> string \<Rightarrow> string \<Rightarrow> string"
  requestline :: string
  request_version :: string
  command :: string
  headers_buffer :: "string list option"
  wfile :: string
  close_connection :: bool
  stdout :: "string list"
  stderr :: "string list"

definition address_string :: "handler \<Rightarrow> string" where
  "address_string h = client_host h"

definition log_date_time_string :: "handler \<Rightarrow> string" where
  "log_date_time_string h = log_time h"

definition print :: "string \<Rightarrow> handler \<Rightarrow> handler" where
  "print text h = h\<lparr>stdout := stdout h @ [text]\<rparr>"

section \<open>The logging override\<close>

text \<open>
  \<^verbatim>\<open>
  def log_message(self, format, *args):
      status_code = args[1]
      if status_code.startswith('2'):    status_color = '\033[92m'
      elif status_code.startswith('3'):  status_color = '\033[94m'
      elif status_code.startswith('4'):  status_color = '\033[93m'
      elif status_code.startswith('5'):  status_color = '\033[91m'
      else:                              status_color = '\033[0m'
      reset_color = '\033[0m'
      print(f"{self.address_string()} - - [{self.log_date_time_string()}] "
            f"{status_color}{format % args}{reset_color}")
  \<close>
\<close>

definition green :: string where "green = ESC # ''[92m''"
definition blue :: string where "blue = ESC # ''[94m''"
definition yellow :: string where "yellow = ESC # ''[93m''"
definition red :: string where "red = ESC # ''[91m''"
definition reset_color :: string where "reset_color = ESC # ''[0m''"

definition status_color :: "pyval \<Rightarrow> exn + string" where
  "status_color status_code =
     and_then (startswith status_code ''2'') (\<lambda>b2.
       if b2 then Inr green
       else and_then (startswith status_code ''3'') (\<lambda>b3.
         if b3 then Inr blue
         else and_then (startswith status_code ''4'') (\<lambda>b4.
           if b4 then Inr yellow
           else and_then (startswith status_code ''5'') (\<lambda>b5.
             if b5 then Inr red
             else Inr reset_color))))"

definition log_message :: "handler \<Rightarrow> string \<Rightarrow> pyval list \<Rightarrow> exn + handler" where
  "log_message h format args =
     and_then (tuple_index args 1) (\<lambda>status_code.
     and_then (status_color status_code) (\<lambda>color.
     and_then (py_format format args) (\<lambda>message.
       Inr (print (address_string h @ '' - - ['' @ log_date_time_string h @ ''] ''
                   @ color @ message @ reset_color) h))))"

text \<open>
  The colour table as the specification words it: chosen by the first character of the
  status field, default when there is none or when it is not one of 2, 3, 4, 5.
\<close>

definition color_of_first_char :: "string \<Rightarrow> string" where
  "color_of_first_char s =
     (case s of
        [] \<Rightarrow> ESC # ''[0m''
      | c # _ \<Rightarrow>
          if c = CHR ''2'' then ESC # ''[92m''
          else if c = CHR ''3'' then ESC # ''[94m''
          else if c = CHR ''4'' then ESC # ''[93m''
          else if c = CHR ''5'' then ESC # ''[91m''
          else ESC # ''[0m'')"

section \<open>The base handler's methods the overrides meet\<close>

text \<open>
  The two overrides run inside \<^verbatim>\<open>http.server.BaseHTTPRequestHandler\<close>: the header
  override calls \<^verbatim>\<open>self.send_header\<close> and \<^verbatim>\<open>super().end_headers()\<close>, and the base
  class calls \<^verbatim>\<open>self.log_message\<close> from \<^verbatim>\<open>log_request\<close> and \<^verbatim>\<open>log_error\<close>. These
  library methods are transcribed here from CPython's \<^verbatim>\<open>Lib/http/server.py\<close>
  (release 3.11), each under its library name. Class attributes that depend on
  the interpreter (\<^verbatim>\<open>version_string()\<close>, the \<^verbatim>\<open>responses\<close> table) are fields of
  the state; \<open>error_page\<close> stands for the rendering of \<^verbatim>\<open>error_message_format\<close> with
  the escaped message and explanation, encoded as UTF-8.
\<close>

definition protocol_version :: string where
  "protocol_version = ''HTTP/1.0''"

definition error_content_type :: string where
  "error_content_type = ''text/html;charset=utf-8''"

text \<open>
  \<^verbatim>\<open>str.lower\<close> on the ASCII letters. The handler compares the result with ASCII words
  only, and no other character of latin-1 becomes an ASCII letter in lower case.
\<close>

definition lower_char :: "char \<Rightarrow> char" where
  "lower_char c =
     (if 65 \<le> (of_char c :: nat) \<and> (of_char c :: nat) \<le> 90
      then char_of ((of_char c :: nat) + 32) else c)"

definition lower :: "string \<Rightarrow> string" where
  "lower s = map lower_char s"

definition buffered :: "handler \<Rightarrow> string list" where
  \<comment> \<open>\<^verbatim>\<open>if not hasattr(self, '_headers_buffer'): self._headers_buffer = []\<close>\<close>
  "buffered h = (case headers_buffer h of None \<Rightarrow> [] | Some b \<Rightarrow> b)"

text \<open>
  \<^verbatim>\<open>
  def send_response_only(self, code, message=None):
      if self.request_version != 'HTTP/0.9':
          if message is None:
              if code in self.responses: message = self.responses[code][0]
              else:                      message = ''
          if not hasattr(self, '_headers_buffer'): self._headers_buffer = []
          self._headers_buffer.append(("%s %d %s\r\n" %
              (self.protocol_version, code, message)).encode('latin-1', 'strict'))
  \<close>
\<close>

definition send_response_only :: "handler \<Rightarrow> int \<Rightarrow> string option \<Rightarrow> handler" where
  "send_response_only h code message =
     (if request_version h \<noteq> ''HTTP/0.9'' then
        let m = (case message of
                   Some m \<Rightarrow> m
                 | None \<Rightarrow> (case responses h code of Some sl \<Rightarrow> fst sl | None \<Rightarrow> []))
        in h\<lparr>headers_buffer :=
               Some (buffered h @ [protocol_version @ '' '' @ str_int code @ '' '' @ m @ CRLF])\<rparr>
      else h)"

text \<open>
  \<^verbatim>\<open>
  def send_header(self, keyword, value):
      if self.request_version != 'HTTP/0.9':
          if not hasattr(self, '_headers_buffer'): self._headers_buffer = []
          self._headers_buffer.append(
              ("%s: %s\r\n" % (keyword, value)).encode('latin-1', 'strict'))
      if keyword.lower() == 'connection':
          if value.lower() == 'close':        self.close_connection = True
          elif value.lower() == 'keep-alive': self.close_connection = False
  \<close>
\<close>

definition send_header :: "handler \<Rightarrow> string \<Rightarrow> string \<Rightarrow> handler" where
  "send_header h keyword v =
     (let h1 = (if request_version h \<noteq> ''HTTP/0.9''
                then h\<lparr>headers_buffer := Some (buffered h @ [keyword @ '': '' @ v @ CRLF])\<rparr>
                else h)
      in if lower keyword = ''connection'' then
           (if lower v = ''close'' then h1\<lparr>close_connection := True\<rparr>
            else if lower v = ''keep-alive'' then h1\<lparr>close_connection := False\<rparr>
            else h1)
         else h1)"

text \<open>
  \<^verbatim>\<open>
  def flush_headers(self):
      if hasattr(self, '_headers_buffer'):
          self.wfile.write(b"".join(self._headers_buffer))
          self._headers_buffer = []
  \<close>
\<close>

definition flush_headers :: "handler \<Rightarrow> handler" where
  "flush_headers h =
     (case headers_buffer h of
        None \<Rightarrow> h
      | Some b \<Rightarrow> h\<lparr>wfile := wfile h @ concat b, headers_buffer := Some []\<rparr>)"

text \<open>
  The library's own \<^verbatim>\<open>end_headers\<close>, which the override reaches through
  \<^verbatim>\<open>super()\<close>. Appending to a missing \<^verbatim>\<open>_headers_buffer\<close> raises AttributeError.
  \<^verbatim>\<open>
  def end_headers(self):
      if self.request_version != 'HTTP/0.9':
          self._headers_buffer.append(b"\r\n")
          self.flush_headers()
  \<close>
\<close>

definition base_end_headers :: "handler \<Rightarrow> exn + handler" where
  "base_end_headers h =
     (if request_version h \<noteq> ''HTTP/0.9'' then
        (case headers_buffer h of
           None \<Rightarrow> Inl AttributeError
         | Some b \<Rightarrow> Inr (flush_headers (h\<lparr>headers_buffer := Some (b @ [CRLF])\<rparr>)))
      else Inr h)"

section \<open>The header override\<close>

text \<open>
  \<^verbatim>\<open>
  def end_headers(self):
      self.send_header('Cache-Control', 'no-store, no-cache, must-revalidate, max-age=0')
      self.send_header('Pragma', 'no-cache')
      self.send_header('Expires', '0')
      super().end_headers()
  \<close>
\<close>

definition end_headers :: "handler \<Rightarrow> exn + handler" where
  "end_headers h =
     base_end_headers
       (send_header
          (send_header
             (send_header h ''Cache-Control''
                ''no-store, no-cache, must-revalidate, max-age=0'')
             ''Pragma'' ''no-cache'')
          ''Expires'' ''0'')"

section \<open>Responses and their log calls in the base handler\<close>

text \<open>
  \<^verbatim>\<open>
  def log_request(self, code='-', size='-'):
      if isinstance(code, HTTPStatus): code = code.value
      self.log_message('"%s" %s %s', self.requestline, str(code), str(size))

  def log_error(self, format, *args):
      self.log_message(format, *args)

  def send_response(self, code, message=None):
      self.log_request(code)
      self.send_response_only(code, message)
      self.send_header('Server', self.version_string())
      self.send_header('Date', self.date_time_string())
  \<close>
  \<^verbatim>\<open>self.log_message\<close> is the override. \<^verbatim>\<open>send_response\<close> passes no size, so the size
  field is the default \<^verbatim>\<open>'-'\<close>.
\<close>

definition log_request :: "handler \<Rightarrow> int \<Rightarrow> exn + handler" where
  \<open>log_request h code =
     log_message h ''"%s" %s %s'' [PStr (requestline h), PStr (str_int code), PStr ''-'']\<close>

definition log_error :: "handler \<Rightarrow> string \<Rightarrow> pyval list \<Rightarrow> exn + handler" where
  "log_error h format args = log_message h format args"

definition version_string :: "handler \<Rightarrow> string" where
  "version_string h = server_version h"

definition date_time_string :: "handler \<Rightarrow> string" where
  "date_time_string h = http_date h"

definition send_response :: "handler \<Rightarrow> int \<Rightarrow> string option \<Rightarrow> exn + handler" where
  "send_response h code message =
     and_then (log_request h code) (\<lambda>h1.
       Inr (send_header
              (send_header (send_response_only h1 code message) ''Server'' (version_string h1))
              ''Date'' (date_time_string h1)))"

text \<open>
  \<^verbatim>\<open>
  def send_error(self, code, message=None, explain=None):
      try:             shortmsg, longmsg = self.responses[code]
      except KeyError: shortmsg, longmsg = '???', '???'
      if message is None: message = shortmsg
      if explain is None: explain = longmsg
      self.log_error("code %d, message %s", code, message)
      self.send_response(code, message)
      self.send_header('Connection', 'close')
      body = None
      if (code >= 200 and code not in (HTTPStatus.NO_CONTENT,
              HTTPStatus.RESET_CONTENT, HTTPStatus.NOT_MODIFIED)):
          content = (self.error_message_format % {...})
          body = content.encode('UTF-8', 'replace')
          self.send_header("Content-Type", self.error_content_type)
          self.send_header('Content-Length', str(len(body)))
      self.end_headers()
      if self.command != 'HEAD' and body:
          self.wfile.write(body)
  \<close>
  \<^verbatim>\<open>self.end_headers\<close> is the override.
\<close>

definition send_error :: "handler \<Rightarrow> int \<Rightarrow> string option \<Rightarrow> string option \<Rightarrow> exn + handler" where
  "send_error h code message explain =
     (let sl = (case responses h code of Some sl \<Rightarrow> sl | None \<Rightarrow> (''???'', ''???''));
          msg = (case message of None \<Rightarrow> fst sl | Some m \<Rightarrow> m);
          expl = (case explain of None \<Rightarrow> snd sl | Some e \<Rightarrow> e)
      in and_then (log_error h ''code %d, message %s'' [PInt code, PStr msg]) (\<lambda>h1.
         and_then (send_response h1 code (Some msg)) (\<lambda>h2.
           let h3 = send_header h2 ''Connection'' ''close'';
               has_body = (code \<ge> 200 \<and> code \<notin> {204, 205, 304});
               body = error_page h code msg expl;
               h4 = (if has_body
                     then send_header (send_header h3 ''Content-Type'' error_content_type)
                            ''Content-Length'' (str_nat (length body))
                     else h3)
           in and_then (end_headers h4) (\<lambda>h5.
                Inr (if command h5 \<noteq> ''HEAD'' \<and> has_body \<and> body \<noteq> []
                     then h5\<lparr>wfile := wfile h5 @ body\<rparr> else h5)))))"

section \<open>Serving GET and HEAD\<close>

text \<open>
  \<^verbatim>\<open>SimpleHTTPRequestHandler.send_head\<close>, which the script inherits unchanged (the
  check of \<^verbatim>\<open>If-Modified-Since\<close> is there since Python 3.7). What it
  reads from outside the handler is given as data:
  \<^item> \<open>resolved\<close> is what the file system answers for the translated request path: a
    directory requested without the final slash (with the URL to redirect to), a directory
    with no index file (listed, with the file-system encoding and the encoded page, or not
    listable), a path that ends in a slash or cannot be opened, or a file that was opened
    (an index file of a directory included);
  \<^item> \<open>conditional\<close> is what the request headers say: \<open>if_modified_since\<close> is the UTC
    time of an \<^verbatim>\<open>If-Modified-Since\<close> header that is present, parses and is in UTC
    (\<open>None\<close> otherwise), \<open>if_none_match\<close> whether an \<^verbatim>\<open>If-None-Match\<close> header is present.
  The file's \<^verbatim>\<open>st_size\<close> is the length of the bytes read from it, \<open>file_mtime\<close> its
  \<^verbatim>\<open>st_mtime\<close> in whole seconds and \<open>file_mtime_date\<close> the same instant as
  \<^verbatim>\<open>date_time_string\<close> formats it.
  \<^verbatim>\<open>
  def send_head(self):
      path = self.translate_path(self.path)
      f = None
      if os.path.isdir(path):
          parts = urllib.parse.urlsplit(self.path)
          if not parts.path.endswith('/'):
              self.send_response(HTTPStatus.MOVED_PERMANENTLY)
              ...
              self.send_header("Location", new_url)
              self.send_header("Content-Length", "0")
              self.end_headers()
              return None
          for index in "index.html", "index.htm": ...
          else:
              return self.list_directory(path)
      ctype = self.guess_type(path)
      if path.endswith("/"):
          self.send_error(HTTPStatus.NOT_FOUND, "File not found")
          return None
      try:
          f = open(path, 'rb')
      except OSError:
          self.send_error(HTTPStatus.NOT_FOUND, "File not found")
          return None
      try:
          fs = os.fstat(f.fileno())
          if ("If-Modified-Since" in self.headers
                  and "If-None-Match" not in self.headers):
              ... ims = the parsed header, when it parses and is in UTC ...
                      if last_modif <= ims:
                          self.send_response(HTTPStatus.NOT_MODIFIED)
                          self.end_headers()
                          f.close()
                          return None
          self.send_response(HTTPStatus.OK)
          self.send_header("Content-type", ctype)
          self.send_header("Content-Length", str(fs[6]))
          self.send_header("Last-Modified", self.date_time_string(fs.st_mtime))
          self.end_headers()
          return f
      except:
          f.close()
          raise

  def list_directory(self, path):
      try:
          list = os.listdir(path)
      except OSError:
          self.send_error(HTTPStatus.NOT_FOUND, "No permission to list directory")
          return None
      ...
      self.send_response(HTTPStatus.OK)
      self.send_header("Content-type", "text/html; charset=%s" % enc)
      self.send_header("Content-Length", str(len(encoded)))
      self.end_headers()
      return f
  \<close>
\<close>

record opened_file =
  file_ctype :: string
  file_mtime :: int
  file_mtime_date :: string
  file_bytes :: string

datatype resolved =
    DirNoSlash string
  | DirListing string string
  | DirUnlistable
  | NotOpenable
  | Opened opened_file

record conditional =
  if_modified_since :: "int option"
  if_none_match :: bool

definition not_modified :: "conditional \<Rightarrow> opened_file \<Rightarrow> bool" where
  "not_modified c f =
     (case if_modified_since c of
        None \<Rightarrow> False
      | Some ims \<Rightarrow> \<not> if_none_match c \<and> file_mtime f \<le> ims)"

definition list_directory ::
  "handler \<Rightarrow> (string \<times> string) option \<Rightarrow> exn + handler \<times> string option" where
  "list_directory h listing =
     (case listing of
        None \<Rightarrow>
          and_then (send_error h 404 (Some ''No permission to list directory'') None) (\<lambda>h1.
            Inr (h1, None))
      | Some (enc, encoded) \<Rightarrow>
          and_then (send_response h 200 None) (\<lambda>h1.
          and_then (end_headers
                      (send_header
                         (send_header h1 ''Content-type'' (''text/html; charset='' @ enc))
                         ''Content-Length'' (str_nat (length encoded)))) (\<lambda>h2.
            Inr (h2, Some encoded))))"

definition send_head :: "handler \<Rightarrow> conditional \<Rightarrow> resolved \<Rightarrow> exn + handler \<times> string option" where
  "send_head h c r =
     (case r of
        DirNoSlash new_url \<Rightarrow>
          and_then (send_response h 301 None) (\<lambda>h1.
          and_then (end_headers
                      (send_header (send_header h1 ''Location'' new_url)
                         ''Content-Length'' ''0'')) (\<lambda>h2.
            Inr (h2, None)))
      | DirListing enc encoded \<Rightarrow> list_directory h (Some (enc, encoded))
      | DirUnlistable \<Rightarrow> list_directory h None
      | NotOpenable \<Rightarrow>
          and_then (send_error h 404 (Some ''File not found'') None) (\<lambda>h1. Inr (h1, None))
      | Opened f \<Rightarrow>
          if not_modified c f then
            and_then (send_response h 304 None) (\<lambda>h1.
            and_then (end_headers h1) (\<lambda>h2.
              Inr (h2, None)))
          else
            and_then (send_response h 200 None) (\<lambda>h1.
            and_then (end_headers
                        (send_header
                           (send_header
                              (send_header h1 ''Content-type'' (file_ctype f))
                              ''Content-Length'' (str_nat (length (file_bytes f))))
                           ''Last-Modified'' (file_mtime_date f))) (\<lambda>h2.
              Inr (h2, Some (file_bytes f)))))"

text \<open>
  \<^verbatim>\<open>
  def do_GET(self):
      f = self.send_head()
      if f:
          try:     self.copyfile(f, self.wfile)
          finally: f.close()

  def do_HEAD(self):
      f = self.send_head()
      if f: f.close()
  \<close>
\<close>

definition do_GET :: "handler \<Rightarrow> conditional \<Rightarrow> resolved \<Rightarrow> exn + handler" where
  "do_GET h c r =
     and_then (send_head h c r) (\<lambda>(h1, f).
       case f of
         None \<Rightarrow> Inr h1
       | Some bytes \<Rightarrow> Inr (h1\<lparr>wfile := wfile h1 @ bytes\<rparr>))"

definition do_HEAD :: "handler \<Rightarrow> conditional \<Rightarrow> resolved \<Rightarrow> exn + handler" where
  "do_HEAD h c r = and_then (send_head h c r) (\<lambda>(h1, f). Inr h1)"

section \<open>The script: banner, server loop, shutdown\<close>

text \<open>
  \<^verbatim>\<open>
  PORT = 8000
  Handler = NoCacheHTTPRequestHandler

  print(f"\033[1;32mStarting server at http://localhost:{PORT}\033[0m")
  print(f"\033[1;33mPress Ctrl+C to stop the server\033[0m")
  print(f"\033[1;34mServing files from: {os.getcwd()}\033[0m")
  print(f"\033[1;36mNo-cache headers enabled - browser will request fresh files on each reload\033[0m")

  with socketserver.TCPServer(("", PORT), Handler) as httpd:
      try:
          httpd.serve_forever()
      except KeyboardInterrupt:
          print("\n\033[1;31mServer stopped\033[0m")
  \<close>
  The process is a record of its two output streams, the bytes it has sent (one entry per
  answered connection) and its exit status (\<open>None\<close> while it runs). What happens to it
  from outside is a list of events, in the order they arrive while \<^verbatim>\<open>serve_forever\<close>
  runs: a GET or HEAD request on a new connection, or the interrupt signal. A request event
  carries the handler instance as \<^verbatim>\<open>parse_request\<close> leaves it (client address, clock
  readings, request line and version), the request's conditional headers and what the file
  system answers for its path. Requests with another method, or with a request line the
  parser rejects, are answered inside the library and are not events of this model.
\<close>

definition PORT :: int where
  "PORT = 8000"

record process =
  out :: "string list"
  err :: "string list"
  sent :: "string list"
  exit_status :: "int option"

datatype event =
    Get handler conditional resolved
  | Head handler conditional resolved
  | Interrupt

record environment =
  cwd :: string
  bind_error :: "string option"
  events :: "event list"

definition banner :: "string \<Rightarrow> string list" where
  "banner getcwd =
     [ESC # ''[1;32mStarting server at http://localhost:'' @ str_int PORT @ ESC # ''[0m'',
      ESC # ''[1;33mPress Ctrl+C to stop the server'' @ ESC # ''[0m'',
      ESC # ''[1;34mServing files from: '' @ getcwd @ ESC # ''[0m'',
      ESC # ''[1;36mNo-cache headers enabled - browser will request fresh files on each reload''
        @ ESC # ''[0m'']"

definition stopped_message :: string where
  "stopped_message = LF @ ESC # ''[1;31mServer stopped'' @ ESC # ''[0m''"

text \<open>
  A connection gets a fresh handler instance: no header buffer yet, nothing written, and
  \<^verbatim>\<open>close_connection\<close> set by \<^verbatim>\<open>handle\<close>; the output streams are the process's.
\<close>

definition new_handler :: "process \<Rightarrow> handler \<Rightarrow> string \<Rightarrow> handler" where
  "new_handler p h method =
     h\<lparr>command := method, headers_buffer := None, wfile := [], close_connection := True,
       stdout := out p, stderr := err p\<rparr>"

definition traceback :: "exn \<Rightarrow> string" where
  \<comment> \<open>The last line of the traceback the interpreter writes for an exception.\<close>
  "traceback e =
     (case e of
        OSError m \<Rightarrow> ''OSError: '' @ m
      | IndexError \<Rightarrow> ''IndexError''
      | AttributeError \<Rightarrow> ''AttributeError''
      | TypeError \<Rightarrow> ''TypeError''
      | ValueError \<Rightarrow> ''ValueError''
      | KeyboardInterrupt \<Rightarrow> ''KeyboardInterrupt''
      | UnsupportedConversion c \<Rightarrow> ''ValueError'')"

text \<open>
  \<^verbatim>\<open>BaseServer._handle_request_noblock\<close> with \<^verbatim>\<open>TCPServer\<close>'s synchronous
  \<^verbatim>\<open>process_request\<close>: the handler runs to completion inside the loop. An exception
  that derives from \<^verbatim>\<open>Exception\<close> is reported on standard error by \<^verbatim>\<open>handle_error\<close>
  and the loop goes on; what the failed handler had already written is not tracked here.
  \<^verbatim>\<open>
  try:
      self.process_request(request, client_address)
  except Exception:
      self.handle_error(request, client_address)
      self.shutdown_request(request)
  except:
      self.shutdown_request(request)
      raise
  \<close>
\<close>

definition handle_request_noblock :: "process \<Rightarrow> exn + handler \<Rightarrow> process \<times> exn option" where
  "handle_request_noblock p result =
     (case result of
        Inr h \<Rightarrow> (p\<lparr>out := stdout h, err := stderr h, sent := sent p @ [wfile h]\<rparr>, None)
      | Inl KeyboardInterrupt \<Rightarrow> (p, Some KeyboardInterrupt)
      | Inl e \<Rightarrow> (p\<lparr>err := err p @ [traceback e]\<rparr>, None))"

fun serve_forever :: "process \<Rightarrow> event list \<Rightarrow> process \<times> exn option" where
  "serve_forever p [] = (p, None)"
| "serve_forever p (Interrupt # es) = (p, Some KeyboardInterrupt)"
| "serve_forever p (Get h c r # es) =
     (case handle_request_noblock p (do_GET (new_handler p h ''GET'') c r) of
        (p1, None) \<Rightarrow> serve_forever p1 es
      | (p1, Some e) \<Rightarrow> (p1, Some e))"
| "serve_forever p (Head h c r # es) =
     (case handle_request_noblock p (do_HEAD (new_handler p h ''HEAD'') c r) of
        (p1, None) \<Rightarrow> serve_forever p1 es
      | (p1, Some e) \<Rightarrow> (p1, Some e))"

definition uncaught :: "exn \<Rightarrow> process \<Rightarrow> process" where
  \<comment> \<open>An exception that leaves the script: traceback on standard error, exit status 1.\<close>
  "uncaught e p = p\<lparr>err := err p @ [traceback e], exit_status := Some 1\<rparr>"

definition main :: "environment \<Rightarrow> process" where
  "main env =
     (let p0 = \<lparr>out = banner (cwd env), err = [], sent = [], exit_status = None\<rparr>
      in case bind_error env of
           Some m \<Rightarrow> uncaught (OSError m) p0
         | None \<Rightarrow>
             (case serve_forever p0 (events env) of
                (p, None) \<Rightarrow> p
              | (p, Some KeyboardInterrupt) \<Rightarrow>
                  p\<lparr>out := out p @ [stopped_message], exit_status := Some 0\<rparr>
              | (p, Some e) \<Rightarrow> uncaught e p))"

section \<open>Observations and sample inputs\<close>

text \<open>
  What a caller sees of a call that may raise: the bytes on the connection and the lines on
  standard output.
\<close>

definition written :: "exn + handler \<Rightarrow> exn + string" where
  "written r = (case r of Inl e \<Rightarrow> Inl e | Inr h \<Rightarrow> Inr (wfile h))"

definition printed :: "exn + handler \<Rightarrow> exn + string list" where
  "printed r = (case r of Inl e \<Rightarrow> Inl e | Inr h \<Rightarrow> Inr (stdout h))"

text \<open>
  \<open>logs proj h n r\<close>: the call with result \<open>r\<close>, started in state \<open>h\<close>, returned, printed
  exactly \<open>n\<close> lines, each with the \<^verbatim>\<open>-\<close> of the log prefix in it, and left standard error
  alone.
\<close>

definition logs :: "('a \<Rightarrow> handler) \<Rightarrow> handler \<Rightarrow> nat \<Rightarrow> exn + 'a \<Rightarrow> bool" where
  "logs proj h n r =
     (\<exists>x ls. r = Inr x \<and> stdout (proj x) = stdout h @ ls \<and> length ls = n
        \<and> (\<forall>l \<in> set ls. CHR ''-'' \<in> set l) \<and> stderr (proj x) = stderr h)"

text \<open>
  The paths of \<^verbatim>\<open>send_head\<close> that answer through \<^verbatim>\<open>send_error\<close>.
\<close>

fun answered_by_send_error :: "resolved \<Rightarrow> bool" where
  "answered_by_send_error NotOpenable = True"
| "answered_by_send_error DirUnlistable = True"
| "answered_by_send_error _ = False"

text \<open>
  A handler for a request from the local machine, a file \<^verbatim>\<open>app.js\<close> as the file system
  has it, and the request headers of a plain and of a conditional request.
\<close>

definition sample_handler :: handler where
  "sample_handler =
     \<lparr>client_host = ''127.0.0.1'', log_time = ''04/Nov/2026 12:00:00'',
      http_date = ''Wed, 04 Nov 2026 12:00:00 GMT'',
      server_version = ''SimpleHTTP/0.6 Python/3.11.10'',
      responses = [200 \<mapsto> (''OK'', ''Request fulfilled, document follows''),
                   304 \<mapsto> (''Not Modified'', ''Document has not changed since given time''),
                   404 \<mapsto> (''Not Found'', ''Nothing matches the given URI'')],
      error_page = (\<lambda>code message explain. message),
      requestline = ''GET /app.js HTTP/1.1'', request_version = ''HTTP/1.1'',
      command = ''GET'', headers_buffer = None, wfile = [], close_connection = True,
      stdout = [], stderr = []\<rparr>"

definition app_js :: opened_file where
  "app_js =
     \<lparr>file_ctype = ''text/javascript'', file_mtime = 1000,
      file_mtime_date = ''Thu, 01 Jan 1970 00:16:40 GMT'', file_bytes = ''let x = 1;''\<rparr>"

definition plain :: conditional where
  "plain = \<lparr>if_modified_since = None, if_none_match = False\<rparr>"

definition revalidating :: conditional where
  "revalidating = \<lparr>if_modified_since = Some 1000, if_none_match = False\<rparr>"

text \<open>
  The arguments of the access-log call for a served request, the environment of a run that
  is interrupted between two requests and of one whose port is taken, a handler with two
  header lines buffered, and one answering a request line without a version. Then the
  responses as the HTTP surface describes them: the three cache-disabling header lines, the
  200 response for a file and the 304 response.
\<close>

definition access_log_args :: "pyval list" where
  "access_log_args = [PStr ''GET /app.js HTTP/1.1'', PStr ''200'', PStr ''-'']"

definition access_log_format :: string where
  \<open>access_log_format = ''"%s" %s %s''\<close>

definition sample_environment :: environment where
  "sample_environment =
     \<lparr>cwd = ''/srv/www'', bind_error = None,
      events = [Get sample_handler plain (Opened app_js), Interrupt,
                Get sample_handler plain (Opened app_js)]\<rparr>"

definition no_cache_lines :: string where
  "no_cache_lines =
     ''Cache-Control: no-store, no-cache, must-revalidate, max-age=0'' @ CRLF
     @ ''Pragma: no-cache'' @ CRLF
     @ ''Expires: 0'' @ CRLF"

definition reason_phrase :: "handler \<Rightarrow> int \<Rightarrow> string" where
  "reason_phrase h code = (case responses h code of Some sl \<Rightarrow> fst sl | None \<Rightarrow> [])"

definition ok_response :: "handler \<Rightarrow> opened_file \<Rightarrow> string" where
  "ok_response h f =
     (if request_version h \<noteq> ''HTTP/0.9'' then
        ''HTTP/1.0 200 '' @ reason_phrase h 200 @ CRLF
        @ ''Server: '' @ server_version h @ CRLF
        @ ''Date: '' @ http_date h @ CRLF
        @ ''Content-type: '' @ file_ctype f @ CRLF
        @ ''Content-Length: '' @ str_nat (length (file_bytes f)) @ CRLF
        @ ''Last-Modified: '' @ file_mtime_date f @ CRLF
        @ no_cache_lines
        @ CRLF
      else [])
     @ file_bytes f"

definition not_modified_response :: "handler \<Rightarrow> string" where
  "not_modified_response h =
     (if request_version h \<noteq> ''HTTP/0.9'' then
        ''HTTP/1.0 304 '' @ reason_phrase h 304 @ CRLF
        @ ''Server: '' @ server_version h @ CRLF
        @ ''Date: '' @ http_date h @ CRLF
        @ no_cache_lines
        @ CRLF
      else [])"

definition buffering_handler :: handler where
  "buffering_handler =
     sample_handler\<lparr>headers_buffer :=
       Some [''HTTP/1.0 200 OK'' @ CRLF, ''Content-type: text/javascript'' @ CRLF]\<rparr>"

definition simple_request_handler :: handler where
  "simple_request_handler =
     sample_handler\<lparr>requestline := ''GET /app.js'', request_version := ''HTTP/0.9''\<rparr>"

definition port_in_use :: environment where
  "port_in_use = sample_environment\<lparr>bind_error := Some ''[Errno 98] Address already in use''\<rparr>"

section \<open>Helper facts: sequencing, numerals, formats\<close>

lemma and_then_Inr [simp]: "and_then (Inr x) f = f x"
  by (simp add: and_then_def)

lemma and_then_Inl [simp]: "and_then (Inl e) f = Inl e"
  by (simp add: and_then_def)

lemma and_then_eq_Inr:
  "and_then m f = Inr y \<longleftrightarrow> (\<exists>x. m = Inr x \<and> f x = Inr y)"
  by (cases m) simp_all

lemma str_nat_digit: "n < 10 \<Longrightarrow> str_nat n = [digit_char n]"
  by (simp add: str_nat.simps)

lemma str_nat_more: "10 \<le> n \<Longrightarrow> str_nat n = str_nat (n div 10) @ [digit_char (n mod 10)]"
  by (subst str_nat.simps) simp

lemmas str_int_eval = str_int_def str_nat_more str_nat_digit digit_char_def

lemma format_request:
  \<open>py_format ''"%s" %s %s'' [PStr a, PStr b, PStr c]
     = Inr (CHR 0x22 # a @ CHR 0x22 # '' '' @ b @ '' '' @ c)\<close>
  by simp

lemma format_error:
  "py_format ''code %d, message %s'' [PInt code, PStr m]
     = Inr (''code '' @ str_int code @ '', message '' @ m)"
  by simp

section \<open>The logging override: colour and layout of the line\<close>

lemma status_color_str:
  "status_color (PStr s) = Inr (color_of_first_char s)"
  by (cases s)
     (simp_all add: status_color_def startswith_def color_of_first_char_def
                    green_def blue_def yellow_def red_def reset_color_def)

lemma status_color_range:
  "status_color v = Inr color \<Longrightarrow> color \<in> {green, blue, yellow, red, reset_color}"
  by (cases v) (auto simp: status_color_def startswith_def split: if_splits)

lemma log_message_line:
  assumes "1 < length args" and "args ! 1 = PStr s" and "py_format format args = Inr message"
  shows "log_message h format args =
           Inr (print (address_string h @ '' - - ['' @ log_date_time_string h @ ''] ''
                       @ color_of_first_char s @ message @ ESC # ''[0m'') h)"
  using assms by (simp add: log_message_def tuple_index_def status_color_str reset_color_def)

lemma log_message_returns:
  assumes "log_message h format args = Inr h'"
  shows "\<exists>color message. 1 < length args \<and> status_color (args ! 1) = Inr color
           \<and> py_format format args = Inr message
           \<and> h' = print (address_string h @ '' - - ['' @ log_date_time_string h @ ''] ''
                         @ color @ message @ reset_color) h"
  using assms
  by (auto simp: log_message_def tuple_index_def and_then_eq_Inr split: if_splits)

section \<open>The header override: what reaches the connection\<close>

lemma end_headers_http1:
  assumes "request_version h \<noteq> ''HTTP/0.9''"
  shows "end_headers h =
           Inr (h\<lparr>wfile := wfile h @ concat (buffered h)
                        @ ''Cache-Control: no-store, no-cache, must-revalidate, max-age=0'' @ CRLF
                        @ ''Pragma: no-cache'' @ CRLF
                        @ ''Expires: 0'' @ CRLF
                        @ CRLF,
                  headers_buffer := Some []\<rparr>)"
  using assms
  by (simp add: end_headers_def send_header_def base_end_headers_def flush_headers_def
                buffered_def lower_def Let_def split: option.splits)

lemma end_headers_http09:
  assumes "request_version h = ''HTTP/0.9''"
  shows "end_headers h = Inr h"
  using assms
  by (simp add: end_headers_def send_header_def base_end_headers_def lower_def Let_def)

lemma end_headers_total:
  "end_headers h =
     Inr (if request_version h \<noteq> ''HTTP/0.9''
          then h\<lparr>wfile := wfile h @ concat (buffered h)
                        @ ''Cache-Control: no-store, no-cache, must-revalidate, max-age=0'' @ CRLF
                        @ ''Pragma: no-cache'' @ CRLF
                        @ ''Expires: 0'' @ CRLF
                        @ CRLF,
                  headers_buffer := Some []\<rparr>
          else h)"
  by (simp add: end_headers_http1 end_headers_http09)

section \<open>Log lines of a response\<close>

lemma log_request_eq:
  "log_request h code =
     Inr (print (address_string h @ '' - - ['' @ log_date_time_string h @ ''] ''
                 @ color_of_first_char (str_int code)
                 @ CHR 0x22 # requestline h @ CHR 0x22 # '' '' @ str_int code @ '' -''
                 @ reset_color) h)"
  unfolding log_request_def
  by (subst log_message_line [OF _ _ format_request]) (simp_all add: reset_color_def)

lemma log_error_send_error_eq:
  "log_error h ''code %d, message %s'' [PInt code, PStr m] =
     Inr (print (address_string h @ '' - - ['' @ log_date_time_string h @ ''] ''
                 @ color_of_first_char m
                 @ ''code '' @ str_int code @ '', message '' @ m
                 @ reset_color) h)"
  unfolding log_error_def
  by (subst log_message_line [OF _ _ format_error]) (simp_all add: reset_color_def)

lemma stdout_send_header [simp]: "stdout (send_header h k v) = stdout h"
  by (simp add: send_header_def Let_def)

lemma stderr_send_header [simp]: "stderr (send_header h k v) = stderr h"
  by (simp add: send_header_def Let_def)

lemma stdout_send_response_only [simp]: "stdout (send_response_only h c m) = stdout h"
  by (simp add: send_response_only_def Let_def)

lemma stderr_send_response_only [simp]: "stderr (send_response_only h c m) = stderr h"
  by (simp add: send_response_only_def Let_def)

lemma logs_and_then:
  assumes "logs p1 h n m" and "\<And>x. logs p2 (p1 x) k (f x)"
  shows "logs p2 h (n + k) (and_then m f)"
proof -
  from assms(1) obtain x ls where x: "m = Inr x" "stdout (p1 x) = stdout h @ ls" "length ls = n"
    "\<forall>l \<in> set ls. CHR ''-'' \<in> set l" "stderr (p1 x) = stderr h"
    unfolding logs_def by blast
  from assms(2) [of x] obtain y ks where y: "f x = Inr y" "stdout (p2 y) = stdout (p1 x) @ ks"
    "length ks = k" "\<forall>l \<in> set ks. CHR ''-'' \<in> set l" "stderr (p2 y) = stderr (p1 x)"
    unfolding logs_def by blast
  show ?thesis
    unfolding logs_def
    by (rule exI [of _ y], rule exI [of _ "ls @ ks"]) (use x y in auto)
qed

lemma logs_return:
  assumes "stdout (proj x) = stdout h" and "stderr (proj x) = stderr h"
  shows "logs proj h 0 (Inr x)"
  using assms by (simp add: logs_def)

lemma logs_log_request: "logs (\<lambda>x. x) h 1 (log_request h code)"
  by (simp add: logs_def log_request_eq print_def)

lemma logs_log_error:
  "logs (\<lambda>x. x) h 1 (log_error h ''code %d, message %s'' [PInt code, PStr m])"
  by (simp add: logs_def log_error_send_error_eq print_def)

lemma logs_end_headers:
  assumes "stdout h1 = stdout h" and "stderr h1 = stderr h"
  shows "logs (\<lambda>x. x) h 0 (end_headers h1)"
  using assms by (simp add: logs_def end_headers_total)

lemma logs_send_response: "logs (\<lambda>x. x) h 1 (send_response h code m)"
  unfolding send_response_def
  using logs_and_then [OF logs_log_request, where k = 0 and ?p2.0 = "\<lambda>x. x"]
  by (simp add: logs_return)

lemma logs_finish_error:
  assumes "stdout h4 = stdout h2" and "stderr h4 = stderr h2"
  shows "logs (\<lambda>x. x) h2 0
           (and_then (end_headers h4) (\<lambda>h5.
              Inr (if c h5 then h5\<lparr>wfile := wfile h5 @ body\<rparr> else h5)))"
  using assms by (simp add: logs_def end_headers_total)

lemma logs_send_error: "logs (\<lambda>x. x) h 2 (send_error h code m e)"
proof -
  have "logs (\<lambda>x. x) h (1 + (1 + 0)) (send_error h code m e)"
    unfolding send_error_def Let_def
    by (intro logs_and_then [where ?p1.0 = "\<lambda>x. x"] logs_log_error logs_send_response
          logs_finish_error) simp_all
  then show ?thesis by (simp add: numeral_2_eq_2)
qed

lemma logs_list_directory:
  "logs fst h (case listing of None \<Rightarrow> 2 | Some page \<Rightarrow> 1) (list_directory h listing)"
proof (cases listing)
  case None
  have "logs fst h (2 + 0) (list_directory h listing)"
    unfolding list_directory_def None option.case
    by (intro logs_and_then [where ?p1.0 = "\<lambda>x. x"] logs_send_error logs_return) simp_all
  then show ?thesis by (simp add: None)
next
  case (Some page)
  obtain enc encoded where page: "page = (enc, encoded)" by (cases page)
  have "logs fst h (1 + (0 + 0)) (list_directory h listing)"
    unfolding list_directory_def Some page option.case prod.case
    by (intro logs_and_then [where ?p1.0 = "\<lambda>x. x"] logs_send_response logs_end_headers
          logs_return) simp_all
  then show ?thesis by (simp add: Some)
qed

lemma logs_send_head:
  "logs fst h (if answered_by_send_error r then 2 else 1) (send_head h c r)"
proof (cases r)
  case (DirNoSlash u)
  have "logs fst h (1 + (0 + 0)) (send_head h c r)"
    unfolding send_head_def DirNoSlash resolved.case
    by (intro logs_and_then [where ?p1.0 = "\<lambda>x. x"] logs_send_response logs_end_headers
          logs_return) simp_all
  then show ?thesis by (simp add: DirNoSlash)
next
  case (DirListing enc encoded)
  then show ?thesis
    using logs_list_directory [of h "Some (enc, encoded)"] by (simp add: send_head_def)
next
  case DirUnlistable
  then show ?thesis
    using logs_list_directory [of h None] by (simp add: send_head_def)
next
  case NotOpenable
  have "logs fst h (2 + 0) (send_head h c r)"
    unfolding send_head_def NotOpenable resolved.case
    by (intro logs_and_then [where ?p1.0 = "\<lambda>x. x"] logs_send_error logs_return) simp_all
  then show ?thesis by (simp add: NotOpenable)
next
  case (Opened f)
  have "logs fst h (1 + (0 + 0)) (send_head h c r)"
  proof (cases "not_modified c f")
    case True
    then show ?thesis
      unfolding send_head_def Opened resolved.case
      by (simp only: if_True)
         (intro logs_and_then [where ?p1.0 = "\<lambda>x. x"] logs_send_response logs_end_headers
            logs_return; simp)
  next
    case False
    then show ?thesis
      unfolding send_head_def Opened resolved.case
      by (simp only: if_False)
         (intro logs_and_then [where ?p1.0 = "\<lambda>x. x"] logs_send_response logs_end_headers
            logs_return; simp)
  qed
  then show ?thesis by (simp add: Opened)
qed

lemma logs_do_GET: "logs (\<lambda>x. x) h (if answered_by_send_error r then 2 else 1) (do_GET h c r)"
proof -
  have "logs (\<lambda>x. x) h ((if answered_by_send_error r then 2 else 1) + 0) (do_GET h c r)"
    unfolding do_GET_def
    by (rule logs_and_then [OF logs_send_head]) (auto simp: logs_def split: option.splits)
  then show ?thesis by simp
qed

lemma logs_do_HEAD: "logs (\<lambda>x. x) h (if answered_by_send_error r then 2 else 1) (do_HEAD h c r)"
proof -
  have "logs (\<lambda>x. x) h ((if answered_by_send_error r then 2 else 1) + 0) (do_HEAD h c r)"
    unfolding do_HEAD_def
    by (rule logs_and_then [OF logs_send_head]) (auto simp: logs_def)
  then show ?thesis by simp
qed

lemma printed_and_then_keep:
  assumes "\<And>x. \<exists>y. f x = Inr y \<and> stdout y = stdout x"
  shows "printed (and_then r f) = printed r"
proof (cases r)
  case (Inl e)
  then show ?thesis by (simp add: printed_def)
next
  case (Inr x)
  with assms [of x] show ?thesis by (auto simp: printed_def)
qed

lemma printed_send_response:
  "printed (send_response h code m) =
     Inr (stdout h @ [address_string h @ '' - - ['' @ log_date_time_string h @ ''] ''
                 @ color_of_first_char (str_int code)
                 @ CHR 0x22 # requestline h @ CHR 0x22 # '' '' @ str_int code @ '' -''
                 @ reset_color])"
  by (simp add: send_response_def log_request_eq printed_def print_def)

lemma printed_send_error:
  "printed (send_error h code (Some m) e) =
     Inr (stdout h @
          [address_string h @ '' - - ['' @ log_date_time_string h @ ''] ''
             @ color_of_first_char m @ ''code '' @ str_int code @ '', message '' @ m
             @ reset_color,
           address_string h @ '' - - ['' @ log_date_time_string h @ ''] ''
             @ color_of_first_char (str_int code)
             @ CHR 0x22 # requestline h @ CHR 0x22 # '' '' @ str_int code @ '' -''
             @ reset_color])"
proof -
  define h1 where "h1 = print (address_string h @ '' - - ['' @ log_date_time_string h @ ''] ''
             @ color_of_first_char m @ ''code '' @ str_int code @ '', message '' @ m
             @ reset_color) h"
  have h1: "log_error h ''code %d, message %s'' [PInt code, PStr m] = Inr h1"
    by (simp add: log_error_send_error_eq h1_def)
  have same: "address_string h1 = address_string h" "log_date_time_string h1 = log_date_time_string h"
    "requestline h1 = requestline h"
    by (simp_all add: h1_def print_def address_string_def log_date_time_string_def)
  have out1: "stdout h1 = stdout h @ [address_string h @ '' - - ['' @ log_date_time_string h @ ''] ''
             @ color_of_first_char m @ ''code '' @ str_int code @ '', message '' @ m
             @ reset_color]"
    by (simp add: h1_def print_def)
  have tail: "printed (and_then (send_response h1 code (Some m)) f)
                = printed (send_response h1 code (Some m))"
    if "\<And>x. \<exists>y. f x = Inr y \<and> stdout y = stdout x" for f
    using that by (rule printed_and_then_keep)
  have "printed (send_error h code (Some m) e) = printed (send_response h1 code (Some m))"
    unfolding send_error_def Let_def
    by (simp add: h1) (rule tail, simp add: end_headers_total)
  then show ?thesis
    by (simp add: printed_send_response same out1)
qed

section \<open>The bytes of a response\<close>

lemma lower_not_connection:
  "lower ''Server'' \<noteq> ''connection''" "lower ''Date'' \<noteq> ''connection''"
  "lower ''Content-type'' \<noteq> ''connection''" "lower ''Content-Length'' \<noteq> ''connection''"
  "lower ''Last-Modified'' \<noteq> ''connection''" "lower ''Location'' \<noteq> ''connection''"
  by (simp_all add: lower_def)

lemma send_header_other:
  assumes "lower k \<noteq> ''connection''"
  shows "send_header h k v =
           (if request_version h \<noteq> ''HTTP/0.9''
            then h\<lparr>headers_buffer := Some (buffered h @ [k @ '': '' @ v @ CRLF])\<rparr> else h)"
  using assms by (simp add: send_header_def Let_def)

section \<open>The server loop\<close>

lemma handle_request_logs:
  assumes "logs (\<lambda>x. x) (new_handler p h m) n r"
  shows "\<exists>p' ls. handle_request_noblock p r = (p', None) \<and> out p' = out p @ ls \<and> length ls = n
           \<and> (\<forall>l \<in> set ls. CHR ''-'' \<in> set l) \<and> err p' = err p
           \<and> length (sent p') = Suc (length (sent p)) \<and> exit_status p' = exit_status p"
  using assms by (auto simp: logs_def handle_request_noblock_def new_handler_def)

lemma serve_forever_requests:
  assumes "Interrupt \<notin> set es"
  shows "\<exists>p' ls. serve_forever p es = (p', None) \<and> out p' = out p @ ls
           \<and> (\<forall>l \<in> set ls. CHR ''-'' \<in> set l) \<and> err p' = err p
           \<and> length (sent p') = length (sent p) + length es
           \<and> exit_status p' = exit_status p"
  using assms
proof (induction es arbitrary: p)
  case Nil
  then show ?case by simp
next
  case (Cons e es)
  then have rest: "Interrupt \<notin> set es" by simp
  show ?case
  proof (cases e)
    case (Get h c r)
    from handle_request_logs [OF logs_do_GET]
    obtain p1 ls1 where p1: "handle_request_noblock p (do_GET (new_handler p h ''GET'') c r) = (p1, None)"
      "out p1 = out p @ ls1" "\<forall>l \<in> set ls1. CHR ''-'' \<in> set l" "err p1 = err p"
      "length (sent p1) = Suc (length (sent p))" "exit_status p1 = exit_status p"
      by blast
    from Cons.IH [OF rest, of p1]
    obtain p' ls where p': "serve_forever p1 es = (p', None)" "out p' = out p1 @ ls"
      "\<forall>l \<in> set ls. CHR ''-'' \<in> set l" "err p' = err p1"
      "length (sent p') = length (sent p1) + length es" "exit_status p' = exit_status p1"
      by blast
    show ?thesis
      by (rule exI [of _ p'], rule exI [of _ "ls1 @ ls"]) (use Get p1 p' in auto)
  next
    case (Head h c r)
    from handle_request_logs [OF logs_do_HEAD]
    obtain p1 ls1 where p1: "handle_request_noblock p (do_HEAD (new_handler p h ''HEAD'') c r) = (p1, None)"
      "out p1 = out p @ ls1" "\<forall>l \<in> set ls1. CHR ''-'' \<in> set l" "err p1 = err p"
      "length (sent p1) = Suc (length (sent p))" "exit_status p1 = exit_status p"
      by blast
    from Cons.IH [OF rest, of p1]
    obtain p' ls where p': "serve_forever p1 es = (p', None)" "out p' = out p1 @ ls"
      "\<forall>l \<in> set ls. CHR ''-'' \<in> set l" "err p' = err p1"
      "length (sent p') = length (sent p1) + length es" "exit_status p' = exit_status p1"
      by blast
    show ?thesis
      by (rule exI [of _ p'], rule exI [of _ "ls1 @ ls"]) (use Head p1 p' in auto)
  next
    case Interrupt
    with Cons.prems show ?thesis by simp
  qed
qed

lemma serve_forever_append:
  assumes "serve_forever p pre = (p1, None)"
  shows "serve_forever p (pre @ es) = serve_forever p1 es"
  using assms
proof (induction p pre rule: serve_forever.induct)
  case (1 p)
  then show ?case by simp
next
  case (2 p es')
  then show ?case by simp
next
  case (3 p h c r es')
  then show ?case by (auto split: prod.splits option.splits)
next
  case (4 p h c r es')
  then show ?case by (auto split: prod.splits option.splits)
qed

lemma serve_forever_interrupted:
  assumes "Interrupt \<notin> set pre"
  shows "serve_forever p (pre @ Interrupt # post) = (fst (serve_forever p pre), Some KeyboardInterrupt)"
proof -
  from serve_forever_requests [OF assms, of p]
  obtain p1 where p1: "serve_forever p pre = (p1, None)" by blast
  show ?thesis
    by (simp add: serve_forever_append [OF p1] p1)
qed

lemma serve_forever_out:
  "\<exists>ls. out (fst (serve_forever p es)) = out p @ ls"
proof (cases "Interrupt \<in> set es")
  case False
  from serve_forever_requests [OF False, of p] show ?thesis by auto
next
  case True
  then obtain pre post where es: "es = pre @ Interrupt # post" "Interrupt \<notin> set pre"
    by (auto dest: split_list_first)
  from serve_forever_requests [OF es(2), of p] show ?thesis
    by (auto simp: es(1) serve_forever_interrupted [OF es(2)])
qed

lemma stopped_message_no_dash: "CHR ''-'' \<notin> set stopped_message"
  by (simp add: stopped_message_def LF_def ESC_def)

lemma banner_not_stopped: "stopped_message \<notin> set (banner d)"
  by (simp add: banner_def stopped_message_def LF_def ESC_def)

lemma count_list_absent: "x \<notin> set xs \<Longrightarrow> count_list xs x = 0"
  by (induction xs) auto

section \<open>Responses to GET: status, headers, body\<close>

lemma send_response_written:
  "\<exists>h1. send_response h code None = Inr h1 \<and> wfile h1 = wfile h
     \<and> request_version h1 = request_version h
     \<and> buffered h1 =
           (if request_version h \<noteq> ''HTTP/0.9''
            then buffered h @ [''HTTP/1.0 '' @ str_int code @ '' '' @ reason_phrase h code @ CRLF,
                               ''Server: '' @ server_version h @ CRLF,
                               ''Date: '' @ http_date h @ CRLF]
            else buffered h)"
  by (simp add: send_response_def log_request_eq send_header_other lower_not_connection
        send_response_only_def print_def buffered_def protocol_version_def version_string_def
        date_time_string_def reason_phrase_def)

lemma do_GET_opened_304:
  assumes "not_modified c f" and "wfile h = []" and "headers_buffer h = None"
  shows "written (do_GET h c (Opened f)) = Inr (not_modified_response h)"
proof -
  from send_response_written [of h 304] obtain h1 where
    h1: "send_response h 304 None = Inr h1" "wfile h1 = wfile h"
        "request_version h1 = request_version h"
        "buffered h1 =
           (if request_version h \<noteq> ''HTTP/0.9''
            then buffered h @ [''HTTP/1.0 '' @ str_int 304 @ '' '' @ reason_phrase h 304 @ CRLF,
                               ''Server: '' @ server_version h @ CRLF,
                               ''Date: '' @ http_date h @ CRLF]
            else buffered h)"
    by blast
  have "str_int 304 = ''304''" by (simp add: str_int_eval)
  with assms h1 show ?thesis
    by (simp add: do_GET_def send_head_def end_headers_total written_def buffered_def
          not_modified_response_def no_cache_lines_def)
qed

lemma do_GET_opened_200:
  assumes "\<not> not_modified c f" and "wfile h = []" and "headers_buffer h = None"
  shows "written (do_GET h c (Opened f)) = Inr (ok_response h f)"
proof -
  from send_response_written [of h 200] obtain h1 where
    h1: "send_response h 200 None = Inr h1" "wfile h1 = wfile h"
        "request_version h1 = request_version h"
        "buffered h1 =
           (if request_version h \<noteq> ''HTTP/0.9''
            then buffered h @ [''HTTP/1.0 '' @ str_int 200 @ '' '' @ reason_phrase h 200 @ CRLF,
                               ''Server: '' @ server_version h @ CRLF,
                               ''Date: '' @ http_date h @ CRLF]
            else buffered h)"
    by blast
  have n: "str_int 200 = ''200''" by (simp add: str_int_eval)
  define h4 where "h4 = send_header
                           (send_header
                              (send_header h1 ''Content-type'' (file_ctype f))
                              ''Content-Length'' (str_nat (length (file_bytes f))))
                           ''Last-Modified'' (file_mtime_date f)"
  have h4: "wfile h4 = []" "request_version h4 = request_version h"
    "buffered h4 = (if request_version h \<noteq> ''HTTP/0.9''
            then [''HTTP/1.0 200 '' @ reason_phrase h 200 @ CRLF,
                               ''Server: '' @ server_version h @ CRLF,
                               ''Date: '' @ http_date h @ CRLF,
                               ''Content-type: '' @ file_ctype f @ CRLF,
                               ''Content-Length: '' @ str_nat (length (file_bytes f)) @ CRLF,
                               ''Last-Modified: '' @ file_mtime_date f @ CRLF]
            else [])"
    using h1 assms(2,3) n
    by (simp_all add: h4_def send_header_other lower_not_connection buffered_def)
  have "written (do_GET h c (Opened f)) =
          written (and_then (end_headers h4) (\<lambda>h2. Inr (h2\<lparr>wfile := wfile h2 @ file_bytes f\<rparr>)))"
    using assms(1) h1(1) by (simp add: do_GET_def send_head_def h4_def and_then_def split: sum.splits)
  also have "\<dots> = Inr (ok_response h f)"
    using h4 by (simp add: end_headers_total written_def ok_response_def no_cache_lines_def)
  finally show ?thesis .
qed

lemma do_GET_opened:
  assumes "wfile h = []" and "headers_buffer h = None"
  shows "written (do_GET h c (Opened f)) =
           Inr (if not_modified c f then not_modified_response h else ok_response h f)"
  using do_GET_opened_304 [OF _ assms] do_GET_opened_200 [OF _ assms] by simp

lemma serve_get_opened:
  "\<exists>p1. handle_request_noblock p (do_GET (new_handler p h ''GET'') c (Opened f)) = (p1, None)
           \<and> sent p1 = sent p @ [if not_modified c f then not_modified_response h
                                   else ok_response h f]"
proof -
  let ?h = "new_handler p h ''GET''"
  have v: "wfile ?h = []" "headers_buffer ?h = None"
    by (simp_all add: new_handler_def)
  have same: "not_modified_response ?h = not_modified_response h" "ok_response ?h f = ok_response h f"
    by (simp_all add: new_handler_def not_modified_response_def ok_response_def reason_phrase_def)
  from logs_do_GET [of ?h "Opened f" c] obtain h' where h': "do_GET ?h c (Opened f) = Inr h'"
    by (auto simp: logs_def)
  with do_GET_opened [OF v, of c f] have "wfile h' = (if not_modified c f then not_modified_response h
                                   else ok_response h f)"
    by (simp add: written_def same)
  with h' show ?thesis by (simp add: handle_request_noblock_def)
qed

lemma serve_forever_gets:
  "\<exists>p'. serve_forever p (map (\<lambda>(h, c, f). Get h c (Opened f)) rs) = (p', None)
         \<and> sent p' = sent p @ map (\<lambda>(h, c, f). if not_modified c f then not_modified_response h
                                   else ok_response h f) rs"
proof (induction rs arbitrary: p)
  case Nil
  then show ?case by simp
next
  case (Cons r rs)
  obtain h c f where r: "r = (h, c, f)" by (cases r)
  from serve_get_opened [of p h c f] obtain p1 where
    p1: "handle_request_noblock p (do_GET (new_handler p h ''GET'') c (Opened f)) = (p1, None)"
        "sent p1 = sent p @ [if not_modified c f then not_modified_response h else ok_response h f]"
    by blast
  from Cons [of p1] obtain p' where
    p': "serve_forever p1 (map (\<lambda>(h, c, f). Get h c (Opened f)) rs) = (p', None)"
        "sent p' = sent p1 @ map (\<lambda>(h, c, f). if not_modified c f then not_modified_response h
                                   else ok_response h f) rs"
    by blast
  show ?case
    by (rule exI [of _ p']) (simp add: r p1 p')
qed

lemma wfile_send_header [simp]: "wfile (send_header h k v) = wfile h"
  by (simp add: send_header_def Let_def)

lemma request_version_send_header [simp]:
  "request_version (send_header h k v) = request_version h"
  by (simp add: send_header_def Let_def)

lemma send_response_keeps:
  "\<exists>h1. send_response h code m = Inr h1 \<and> wfile h1 = wfile h
     \<and> request_version h1 = request_version h"
  by (simp add: send_response_def log_request_eq send_response_only_def print_def Let_def)

lemma log_error_keeps:
  "\<exists>h1. log_error h ''code %d, message %s'' [PInt code, PStr m] = Inr h1
     \<and> wfile h1 = wfile h \<and> request_version h1 = request_version h"
  by (simp add: log_error_send_error_eq print_def)

lemma end_headers_written:
  assumes "request_version h \<noteq> ''HTTP/0.9''"
  shows "\<exists>h'. end_headers h = Inr h'
           \<and> wfile h' = wfile h @ concat (buffered h) @ no_cache_lines @ CRLF"
  using assms by (simp add: end_headers_http1 no_cache_lines_def)

lemma respond_written:
  assumes "request_version h \<noteq> ''HTTP/0.9''"
    and "\<And>h1. wfile (G h1) = wfile h1 \<and> request_version (G h1) = request_version h1"
  shows "\<exists>x pre. and_then (send_response h code m) (\<lambda>h1.
                    and_then (end_headers (G h1)) (\<lambda>h2. Inr (h2, B))) = Inr (x, B)
           \<and> wfile x = wfile h @ pre @ no_cache_lines @ CRLF"
proof -
  from send_response_keeps [of h code m] obtain h1 where
    h1: "send_response h code m = Inr h1" "wfile h1 = wfile h"
        "request_version h1 = request_version h"
    by blast
  from assms(2) [of h1] h1 assms(1) have "request_version (G h1) \<noteq> ''HTTP/0.9''"
    and w: "wfile (G h1) = wfile h" by simp_all
  from end_headers_written [OF this(1)] obtain h2 where
    h2: "end_headers (G h1) = Inr h2"
        "wfile h2 = wfile (G h1) @ concat (buffered (G h1)) @ no_cache_lines @ CRLF"
    by blast
  show ?thesis
    by (rule exI [of _ h2], rule exI [of _ "concat (buffered (G h1))"]) (simp add: h1 h2 w)
qed

lemma send_error_written:
  assumes "request_version h \<noteq> ''HTTP/0.9''"
  shows "\<exists>x pre body. send_error h code m e = Inr x
           \<and> wfile x = wfile h @ pre @ no_cache_lines @ CRLF @ body"
proof -
  define msg where "msg = (case m of None \<Rightarrow> fst (case responses h code of Some sl \<Rightarrow> sl | None \<Rightarrow> (''???'', ''???'')) | Some m \<Rightarrow> m)"
  from log_error_keeps [of h code msg] obtain h1 where
    h1: "log_error h ''code %d, message %s'' [PInt code, PStr msg] = Inr h1"
        "wfile h1 = wfile h" "request_version h1 = request_version h"
    by blast
  from send_response_keeps [of h1 code "Some msg"] obtain h2 where
    h2: "send_response h1 code (Some msg) = Inr h2" "wfile h2 = wfile h1"
        "request_version h2 = request_version h1"
    by blast
  have tail: "\<exists>x pre body.
      and_then (end_headers h4) (\<lambda>h5. Inr (if c h5 then h5\<lparr>wfile := wfile h5 @ b\<rparr> else h5)) = Inr x
      \<and> wfile x = wfile h @ pre @ no_cache_lines @ CRLF @ body"
    if "wfile h4 = wfile h" "request_version h4 \<noteq> ''HTTP/0.9''" for h4 c b
  proof -
    from end_headers_written [OF that(2)] obtain h5 where
      h5: "end_headers h4 = Inr h5"
          "wfile h5 = wfile h4 @ concat (buffered h4) @ no_cache_lines @ CRLF"
      by blast
    show ?thesis
      by (rule exI [of _ "if c h5 then h5\<lparr>wfile := wfile h5 @ b\<rparr> else h5"],
          rule exI [of _ "concat (buffered h4)"],
          rule exI [of _ "if c h5 then b else []"])
         (simp add: h5 that(1))
  qed
  show ?thesis
    unfolding send_error_def Let_def msg_def [symmetric]
    by (simp only: h1 h2 and_then_Inr) (rule tail; simp add: h1 h2 assms)
qed

lemma send_head_written:
  assumes "request_version h \<noteq> ''HTTP/0.9''"
  shows "\<exists>x f pre body. send_head h c r = Inr (x, f)
           \<and> wfile x = wfile h @ pre @ no_cache_lines @ CRLF @ body"
proof -
  have via_error: "\<exists>x f pre body.
      and_then (send_error h code m e) (\<lambda>h1. Inr (h1, None)) = Inr (x, f)
      \<and> wfile x = wfile h @ pre @ no_cache_lines @ CRLF @ body" for code m e
  proof -
    from send_error_written [OF assms, of code m e] obtain x pre body where
      "send_error h code m e = Inr x" "wfile x = wfile h @ pre @ no_cache_lines @ CRLF @ body"
      by blast
    then show ?thesis
      by (intro exI [of _ x] exI [of _ None] exI [of _ pre] exI [of _ body]) simp
  qed
  have via_response: "\<exists>x f pre body.
      and_then (send_response h code m) (\<lambda>h1.
        and_then (end_headers (G h1)) (\<lambda>h2. Inr (h2, B))) = Inr (x, f)
      \<and> wfile x = wfile h @ pre @ no_cache_lines @ CRLF @ body"
    if "\<And>h1. wfile (G h1) = wfile h1 \<and> request_version (G h1) = request_version h1"
    for code m G B
  proof -
    from respond_written [OF assms that, of code m B] obtain x pre where
      "and_then (send_response h code m) (\<lambda>h1.
         and_then (end_headers (G h1)) (\<lambda>h2. Inr (h2, B))) = Inr (x, B)"
      "wfile x = wfile h @ pre @ no_cache_lines @ CRLF"
      by blast
    then show ?thesis
      by (intro exI [of _ x] exI [of _ B] exI [of _ pre] exI [of _ "[]"]) simp
  qed
  show ?thesis
  proof (cases r)
    case (DirNoSlash u)
    show ?thesis
      unfolding send_head_def DirNoSlash resolved.case by (rule via_response) simp
  next
    case (DirListing enc encoded)
    show ?thesis
      unfolding send_head_def DirListing resolved.case list_directory_def option.case prod.case
      by (rule via_response) simp
  next
    case DirUnlistable
    show ?thesis
      unfolding send_head_def DirUnlistable resolved.case list_directory_def option.case
      by (rule via_error)
  next
    case NotOpenable
    show ?thesis
      unfolding send_head_def NotOpenable resolved.case by (rule via_error)
  next
    case (Opened f)
    show ?thesis
    proof (cases "not_modified c f")
      case True
      show ?thesis
        unfolding send_head_def Opened resolved.case
        by (simp only: True if_True) (rule via_response [of "\<lambda>h. h"], simp)
    next
      case False
      show ?thesis
        unfolding send_head_def Opened resolved.case
        by (simp only: False if_False) (rule via_response, simp)
    qed
  qed
qed

lemma do_GET_written:
  assumes "request_version h \<noteq> ''HTTP/0.9''"
  shows "\<exists>pre body. written (do_GET h c r) = Inr (wfile h @ pre @ no_cache_lines @ CRLF @ body)"
proof -
  from send_head_written [OF assms, of c r] obtain x f pre body where
    *: "send_head h c r = Inr (x, f)" "wfile x = wfile h @ pre @ no_cache_lines @ CRLF @ body"
    by blast
  show ?thesis
    by (rule exI [of _ pre],
        rule exI [of _ "body @ (case f of None \<Rightarrow> [] | Some bytes \<Rightarrow> bytes)"])
       (simp add: do_GET_def * written_def split: option.splits)
qed

lemma do_HEAD_written:
  assumes "request_version h \<noteq> ''HTTP/0.9''"
  shows "\<exists>pre body. written (do_HEAD h c r) = Inr (wfile h @ pre @ no_cache_lines @ CRLF @ body)"
proof -
  from send_head_written [OF assms, of c r] obtain x f pre body where
    *: "send_head h c r = Inr (x, f)" "wfile x = wfile h @ pre @ no_cache_lines @ CRLF @ body"
    by blast
  show ?thesis
    by (rule exI [of _ pre], rule exI [of _ body]) (simp add: do_HEAD_def * written_def)
qed

section \<open>The script from start to exit\<close>

lemma main_bind_failure:
  assumes "bind_error env = Some m"
  shows "main env = \<lparr>out = banner (cwd env), err = [''OSError: '' @ m], sent = [],
                     exit_status = Some 1\<rparr>"
  using assms by (simp add: main_def uncaught_def traceback_def)

lemma main_serving:
  assumes "bind_error env = None" and "Interrupt \<notin> set (events env)"
  shows "\<exists>ls. main env = fst (serve_forever \<lparr>out = banner (cwd env), err = [], sent = [], exit_status = None\<rparr> (events env))
    \<and> out (main env) = banner (cwd env) @ ls
    \<and> (\<forall>l \<in> set ls. CHR ''-'' \<in> set l) \<and> err (main env) = []
    \<and> length (sent (main env)) = length (events env)
    \<and> exit_status (main env) = None"
  using serve_forever_requests [OF assms(2), of "\<lparr>out = banner (cwd env), err = [], sent = [], exit_status = None\<rparr>"] assms(1)
  by (auto simp: main_def)

lemma main_interrupted:
  assumes "bind_error env = None" and "events env = pre @ Interrupt # post"
    and "Interrupt \<notin> set pre"
  shows "main env = (main (env\<lparr>events := pre\<rparr>))
                      \<lparr>out := out (main (env\<lparr>events := pre\<rparr>)) @ [stopped_message],
                       exit_status := Some 0\<rparr>"
proof -
  let ?p0 = "\<lparr>out = banner (cwd env), err = [], sent = [], exit_status = None\<rparr>"
  from serve_forever_requests [OF assms(3), of ?p0] obtain p1 where
    p1: "serve_forever ?p0 pre = (p1, None)" by blast
  have "main (env\<lparr>events := pre\<rparr>) = p1"
    using assms(1) p1 by (simp add: main_def)
  moreover have "main env = p1\<lparr>out := out p1 @ [stopped_message], exit_status := Some 0\<rparr>"
    using assms(1) by (simp add: main_def assms(2) serve_forever_interrupted [OF assms(3)] p1)
  ultimately show ?thesis by simp
qed

lemma main_banner_first: "\<exists>rest. out (main env) = banner (cwd env) @ rest"
proof (cases "bind_error env")
  case (Some m)
  then show ?thesis by (simp add: main_bind_failure)
next
  case None
  let ?p0 = "\<lparr>out = banner (cwd env), err = [], sent = [], exit_status = None\<rparr>"
  obtain p e where pe: "serve_forever ?p0 (events env) = (p, e)" by (cases "serve_forever ?p0 (events env)")
  from serve_forever_out [of ?p0 "events env"] obtain ls where "out p = banner (cwd env) @ ls"
    by (auto simp: pe)
  then show ?thesis
    using None pe by (cases e) (auto simp: main_def uncaught_def split: exn.splits)
qed

lemma banner_literal:
  "banner d =
     [ESC # ''[1;32mStarting server at http://localhost:8000'' @ ESC # ''[0m'',
      ESC # ''[1;33mPress Ctrl+C to stop the server'' @ ESC # ''[0m'',
      ESC # ''[1;34mServing files from: '' @ d @ ESC # ''[0m'',
      ESC # ''[1;36mNo-cache headers enabled - browser will request fresh files on each reload''
        @ ESC # ''[0m'']"
  by (simp add: banner_def PORT_def str_int_eval)

section \<open>The specification's claims\<close>

subsection \<open>The cache-disabling headers\<close>




subsection \<open>The colour of a log line\<close>



subsection \<open>Log lines per request\<close>




subsection \<open>What the colour wraps\<close>

text \<open>
  C4 as stated, that the colour wraps the client address and the timestamp too, fails
  on the access-log line of a served request: the line starts with the address, and the
  green code comes after the timestamp.
\<close>

theorem log_line_wrapped_whole_counterexample:
  \<open>printed (log_message sample_handler access_log_format access_log_args) =
     Inr [''127.0.0.1 - - [04/Nov/2026 12:00:00] '' @ green
          @ ''"GET /app.js HTTP/1.1" 200 -'' @ reset_color]
   \<and> ''127.0.0.1 - - [04/Nov/2026 12:00:00] '' @ green
          @ ''"GET /app.js HTTP/1.1" 200 -'' @ reset_color
       \<noteq> green @ ''127.0.0.1 - - [04/Nov/2026 12:00:00] ''
          @ ''"GET /app.js HTTP/1.1" 200 -'' @ reset_color\<close>
  by (simp add: log_message_def tuple_index_def status_color_str color_of_first_char_def
        printed_def print_def address_string_def log_date_time_string_def
        access_log_args_def access_log_format_def green_def reset_color_def ESC_def
        sample_handler_def)

text \<open>
  C4 (amended). Every printed log line is the client address, \<^verbatim>\<open> - - [\<close>, the
  timestamp and \<^verbatim>\<open>] \<close> with no colour code before them, then the colour code chosen from
  the second argument (one of the five codes), then the formatted message, then the reset
  code, which ends the line: only the message is wrapped in the colour.
\<close>

theorem log_line_layout:
  assumes "log_message h format args = Inr h'"
  shows "\<exists>color message.
           status_color (args ! 1) = Inr color
           \<and> color \<in> {green, blue, yellow, red, reset_color}
           \<and> py_format format args = Inr message
           \<and> stdout h' = stdout h @ [address_string h @ '' - - ['' @ log_date_time_string h
                                      @ ''] '' @ color @ message @ reset_color]"
proof -
  from log_message_returns [OF assms] obtain color message where
    *: "status_color (args ! 1) = Inr color" "py_format format args = Inr message"
       "h' = print (address_string h @ '' - - ['' @ log_date_time_string h @ ''] ''
                    @ color @ message @ reset_color) h"
    by blast
  from status_color_range [OF *(1)] * show ?thesis
    by (auto simp: print_def)
qed

text \<open>
  The access-log call of a served request.
\<close>

theorem log_line_layout_witness:
  \<open>log_message sample_handler access_log_format access_log_args =
      Inr (print (''127.0.0.1 - - [04/Nov/2026 12:00:00] '' @ green
                  @ ''"GET /app.js HTTP/1.1" 200 -'' @ reset_color) sample_handler)
   \<and> (\<exists>color message.
          status_color (access_log_args ! 1) = Inr color
          \<and> color \<in> {green, blue, yellow, red, reset_color}
          \<and> py_format access_log_format access_log_args = Inr message
          \<and> stdout (print (''127.0.0.1 - - [04/Nov/2026 12:00:00] '' @ green
                  @ ''"GET /app.js HTTP/1.1" 200 -'' @ reset_color) sample_handler)
              = stdout sample_handler
                @ [address_string sample_handler @ '' - - [''
                   @ log_date_time_string sample_handler @ ''] '' @ color @ message
                   @ reset_color])\<close>
proof -
  have run: \<open>log_message sample_handler access_log_format access_log_args =
      Inr (print (''127.0.0.1 - - [04/Nov/2026 12:00:00] '' @ green
                  @ ''"GET /app.js HTTP/1.1" 200 -'' @ reset_color) sample_handler)\<close>
    by (simp add: log_message_def tuple_index_def status_color_str color_of_first_char_def
          address_string_def log_date_time_string_def access_log_args_def
          access_log_format_def green_def reset_color_def sample_handler_def)
  show ?thesis
    using log_line_layout [OF run] run by simp
qed

subsection \<open>Repeated and conditional GET\<close>




subsection \<open>Interrupt\<close>



subsection \<open>Bind failure\<close>



subsection \<open>The startup banner\<close>

text \<open>
  C8. The first four lines on standard output are, in this order, the bold green line
  with \<^verbatim>\<open>http://localhost:8000\<close>, the bold yellow line about Ctrl+C, the bold blue line
  with the working directory, and the bold cyan line about the no-cache headers; they are
  printed before the port is bound, and a run in which nothing else happens prints exactly
  these four.
\<close>

theorem startup_banner:
  "take 4 (out (main env)) =
     [ESC # ''[1;32mStarting server at http://localhost:8000'' @ ESC # ''[0m'',
      ESC # ''[1;33mPress Ctrl+C to stop the server'' @ ESC # ''[0m'',
      ESC # ''[1;34mServing files from: '' @ cwd env @ ESC # ''[0m'',
      ESC # ''[1;36mNo-cache headers enabled - browser will request fresh files on each reload''
        @ ESC # ''[0m'']
   \<and> out (main (env\<lparr>events := []\<rparr>)) = take 4 (out (main env))"
proof -
  from main_banner_first [of env] obtain rest where
    rest: "out (main env) = banner (cwd env) @ rest" by blast
  have four: "length (banner (cwd env)) = 4" by (simp add: banner_def)
  have quiet: "out (main (env\<lparr>events := []\<rparr>)) = banner (cwd env)"
    by (cases "bind_error env") (simp_all add: main_def uncaught_def)
  show ?thesis
    by (simp add: rest four quiet) (simp add: banner_literal)
qed

subsection \<open>When the log override raises\<close>




end
